theory Spec2Isabelle
  imports Complex_Main "HOL-Library.Sublist"
begin

section \<open>JavaScript values\<close>

text \<open>
  The module src/Utils/createAnimatedWrapper.js works on untyped JavaScript values: a
  style is a mapping, a sequence of styles, a registered style number or a falsy value.
  A number is a double: not-a-number, an infinity (the flag is its sign) or a finite
  value; only its truthiness is ever looked at.  A string is a list of code units below
  256.  A function or class (a callback, a component type) is opaque and carries a tag.
  An object is a plain data object: the list of its own enumerable properties in the
  order \<open>Object.keys\<close> lists them, every one a writable data property, with
  \<open>Object.prototype\<close> as its prototype.  An array is dense.  The one object whose
  prototype can change is the accumulator of getFilteredStyle, which carries its
  prototype with it (see \<open>putProp\<close>).
\<close>

datatype jsnum = NaN | Infinity bool | Finite real

datatype jsval =
    JUndefined
  | JNull
  | JBool bool
  | JNum jsnum
  | JStr string
  | JFun nat
  | JArr "jsval list"
  | JObj "(string \<times> jsval) list"

type_synonym obj = "(string \<times> jsval) list"

text \<open>ToBoolean: what \<open>if (v)\<close>, \<open>!v\<close> and \<open>a || b\<close> test.\<close>

fun truthy :: "jsval \<Rightarrow> bool" where
  "truthy JUndefined = False"
| "truthy JNull = False"
| "truthy (JBool b) = b"
| "truthy (JNum NaN) = False"
| "truthy (JNum (Infinity s)) = True"
| "truthy (JNum (Finite r)) = (r \<noteq> 0)"
| "truthy (JStr s) = (s \<noteq> [])"
| "truthy (JFun f) = True"
| "truthy (JArr xs) = True"
| "truthy (JObj kvs) = True"

text \<open>\<open>v instanceof Object\<close>: a primitive is never an instance.\<close>

fun instanceofObject :: "jsval \<Rightarrow> bool" where
  "instanceofObject (JObj kvs) = True"
| "instanceofObject (JArr xs) = True"
| "instanceofObject (JFun f) = True"
| "instanceofObject v = False"

text \<open>The decimal string of an array index, as \<open>Object.keys\<close> of an array lists it.\<close>

definition digitChar :: "nat \<Rightarrow> char" where
  "digitChar d = ''0123456789'' ! d"

fun decimal :: "nat \<Rightarrow> string" where
  "decimal n = (if n < 10 then [digitChar n] else decimal (n div 10) @ [digitChar (n mod 10)])"

declare decimal.simps [simp del]

definition indexKeys :: "nat \<Rightarrow> string list" where
  "indexKeys n = map decimal [0..<n]"

text \<open>
  \<open>Object.keys(s)\<close> for a truthy \<open>s\<close>: the own enumerable string keys.  An array and a
  string have their indices; a number, a boolean and a function have none.
\<close>

fun objectKeys :: "jsval \<Rightarrow> string list" where
  "objectKeys (JObj kvs) = map fst kvs"
| "objectKeys (JArr xs) = indexKeys (length xs)"
| "objectKeys (JStr s) = indexKeys (length s)"
| "objectKeys v = []"

text \<open>\<open>s[key]\<close>: the value of an own property, \<open>undefined\<close> when there is none.\<close>

definition lookupOr :: "obj \<Rightarrow> string \<Rightarrow> jsval" where
  "lookupOr kvs k = (case map_of kvs k of None \<Rightarrow> JUndefined | Some v \<Rightarrow> v)"

fun getProp :: "jsval \<Rightarrow> string \<Rightarrow> jsval" where
  "getProp (JObj kvs) k = lookupOr kvs k"
| "getProp (JArr xs) k = lookupOr (zip (indexKeys (length xs)) xs) k"
| "getProp (JStr s) k = lookupOr (zip (indexKeys (length s)) (map (\<lambda>c. JStr [c]) s)) k"
| "getProp v k = JUndefined"

text \<open>
  Defining an own property, as \<open>{...o, key: v}\<close> does and as an assignment does once
  it gets to store: an existing property keeps its place and takes the new value, a new
  property goes last.
\<close>

fun setProp :: "obj \<Rightarrow> string \<Rightarrow> jsval \<Rightarrow> obj" where
  "setProp [] k v = [(k, v)]"
| "setProp (p # ps) k v = (if fst p = k then (k, v) # ps else p # setProp ps k v)"

text \<open>
  The assignment \<open>retVal[key] = v\<close> on the accumulator \<open>const retVal = {}\<close>.  An own
  property is overwritten.  Otherwise the prototype chain decides: the first object on it
  that has the property either lets the assignment store an own property on
  \<open>retVal\<close> (a writable data property, or no property anywhere), or is
  \<open>Object.prototype\<close> with its accessor \<open>__proto__\<close>, whose setter replaces the
  prototype of \<open>retVal\<close> when the value is an object or null and does nothing for any
  other value, or refuses the assignment (the properties \<open>length\<close> and \<open>name\<close> of a
  function are not writable; nothing is stored then, and code compiled as strict raises
  a TypeError instead, which this model does not follow).  The accumulator starts with
  \<open>Object.prototype\<close>, so a key \<open>__proto__\<close> is not stored as long as that holds.
\<close>

datatype prototype = ObjectPrototype | NullPrototype | ValuePrototype jsval

datatype assignment = Stores | CallsProtoSetter | Refused

fun isObject :: "jsval \<Rightarrow> bool" where
  "isObject (JObj kvs) = True"
| "isObject (JArr xs) = True"
| "isObject (JFun f) = True"
| "isObject v = False"

fun inherited :: "prototype \<Rightarrow> string \<Rightarrow> assignment" where
  "inherited ObjectPrototype k = (if k = ''__proto__'' then CallsProtoSetter else Stores)"
| "inherited NullPrototype k = Stores"
| "inherited (ValuePrototype (JObj kvs)) k =
     (if k \<in> fst ` set kvs then Stores
      else if k = ''__proto__'' then CallsProtoSetter else Stores)"
| "inherited (ValuePrototype (JFun f)) k =
     (if k = ''length'' \<or> k = ''name'' then Refused
      else if k = ''__proto__'' then CallsProtoSetter else Stores)"
| "inherited (ValuePrototype v) k = (if k = ''__proto__'' then CallsProtoSetter else Stores)"

definition protoSetter :: "prototype \<Rightarrow> jsval \<Rightarrow> prototype" where
  "protoSetter pr v =
     (if v = JNull then NullPrototype else if isObject v then ValuePrototype v else pr)"

definition putProp :: "obj \<times> prototype \<Rightarrow> string \<Rightarrow> jsval \<Rightarrow> obj \<times> prototype" where
  "putProp retVal k v =
     (if k \<in> fst ` set (fst retVal) then (setProp (fst retVal) k v, snd retVal)
      else
        case inherited (snd retVal) k of
          Stores \<Rightarrow> (setProp (fst retVal) k v, snd retVal)
        | CallsProtoSetter \<Rightarrow> (fst retVal, protoSetter (snd retVal) v)
        | Refused \<Rightarrow> retVal)"

text \<open>The keys of a bucket: those of a mapping; a result that is no mapping has none.\<close>

fun bucketKeys :: "jsval \<Rightarrow> string set" where
  "bucketKeys (JObj kvs) = fst ` set kvs"
| "bucketKeys v = {}"

section \<open>isNumber\<close>

text \<open>
  \<open>function isNumber(n) { return !isNaN(parseFloat(n)) && !isNaN(n - 0); }\<close> is only
  called on keys, which are strings.  Whether \<open>parseFloat(n)\<close> and \<open>n - 0\<close> are NaN is
  decided by the grammar of ECMAScript's string numeric literals alone: \<open>parseFloat\<close>
  is NaN iff no prefix of the string, leading white space dropped, is a
  StrDecimalLiteral; \<open>n - 0\<close> is NaN iff the string, white space trimmed at both ends,
  is neither empty nor a StrNumericLiteral.
\<close>

definition isStrWhiteSpaceChar :: "char \<Rightarrow> bool" where
  "isStrWhiteSpaceChar c =
     (c \<in> set [CHR 0x09, CHR 0x0A, CHR 0x0B, CHR 0x0C, CHR 0x0D, CHR 0x20, CHR 0xA0])"

definition isDecimalDigit :: "char \<Rightarrow> bool" where
  "isDecimalDigit c = (c \<in> set ''0123456789'')"

definition isHexDigit :: "char \<Rightarrow> bool" where
  "isHexDigit c = (c \<in> set ''0123456789abcdefABCDEF'')"

definition isOctalDigit :: "char \<Rightarrow> bool" where
  "isOctalDigit c = (c \<in> set ''01234567'')"

definition isBinaryDigit :: "char \<Rightarrow> bool" where
  "isBinaryDigit c = (c \<in> set ''01'')"

definition isDecimalDigits :: "string \<Rightarrow> bool" where
  "isDecimalDigits s = (s \<noteq> [] \<and> list_all isDecimalDigit s)"

fun isSignedInteger :: "string \<Rightarrow> bool" where
  "isSignedInteger [] = False"
| "isSignedInteger (c # r) =
     (if c = CHR ''+'' \<or> c = CHR ''-'' then isDecimalDigits r else isDecimalDigits (c # r))"

fun isExponentPartOpt :: "string \<Rightarrow> bool" where
  "isExponentPartOpt [] = True"
| "isExponentPartOpt (c # r) = ((c = CHR ''e'' \<or> c = CHR ''E'') \<and> isSignedInteger r)"

definition isStrUnsignedDecimalLiteral :: "string \<Rightarrow> bool" where
  "isStrUnsignedDecimalLiteral s =
     (s = ''Infinity'' \<or>
      (let ds = takeWhile isDecimalDigit s; r = dropWhile isDecimalDigit s in
       case r of
         [] \<Rightarrow> ds \<noteq> []
       | c # r' \<Rightarrow>
           if c = CHR ''.''
           then (ds \<noteq> [] \<or> takeWhile isDecimalDigit r' \<noteq> []) \<and>
                isExponentPartOpt (dropWhile isDecimalDigit r')
           else ds \<noteq> [] \<and> isExponentPartOpt r))"

fun isStrDecimalLiteral :: "string \<Rightarrow> bool" where
  "isStrDecimalLiteral [] = False"
| "isStrDecimalLiteral (c # r) =
     (if c = CHR ''+'' \<or> c = CHR ''-'' then isStrUnsignedDecimalLiteral r
      else isStrUnsignedDecimalLiteral (c # r))"

fun isNonDecimalIntegerLiteral :: "string \<Rightarrow> bool" where
  "isNonDecimalIntegerLiteral (z # x # r) =
     (z = CHR ''0'' \<and> r \<noteq> [] \<and>
      (if x = CHR ''x'' \<or> x = CHR ''X'' then list_all isHexDigit r
       else if x = CHR ''o'' \<or> x = CHR ''O'' then list_all isOctalDigit r
       else if x = CHR ''b'' \<or> x = CHR ''B'' then list_all isBinaryDigit r
       else False))"
| "isNonDecimalIntegerLiteral s = False"

definition isStrNumericLiteral :: "string \<Rightarrow> bool" where
  "isStrNumericLiteral s = (isStrDecimalLiteral s \<or> isNonDecimalIntegerLiteral s)"

definition trimStart :: "string \<Rightarrow> string" where
  "trimStart s = dropWhile isStrWhiteSpaceChar s"

definition trim :: "string \<Rightarrow> string" where
  "trim s = rev (dropWhile isStrWhiteSpaceChar (rev (trimStart s)))"

definition parseFloatIsNaN :: "string \<Rightarrow> bool" where
  "parseFloatIsNaN s = (\<not> list_ex isStrDecimalLiteral (prefixes (trimStart s)))"

definition toNumberIsNaN :: "string \<Rightarrow> bool" where
  "toNumberIsNaN s = (\<not> (trim s = [] \<or> isStrNumericLiteral (trim s)))"

definition isNumber :: "string \<Rightarrow> bool" where
  "isNumber n = (\<not> parseFloatIsNaN n \<and> \<not> toNumberIsNaN n)"

section \<open>The three classification tables\<close>

definition excludePropsForComponent :: "string list" where
  "excludePropsForComponent =
    [''display'', ''start'', ''end'', ''top'', ''left'', ''right'', ''bottom'',
     ''minWidth'', ''maxWidth'', ''minHeight'', ''maxHeight'',
     ''margin'', ''marginVertical'', ''marginHorizontal'', ''marginTop'', ''marginBottom'',
     ''marginLeft'', ''marginRight'', ''marginStart'', ''marginEnd'',
     ''padding'', ''paddingVertical'', ''paddingHorizontal'', ''paddingTop'',
     ''paddingBottom'', ''paddingLeft'', ''paddingRight'', ''paddingStart'', ''paddingEnd'',
     ''position'', ''flexWrap'', ''flex'', ''flexGrow'', ''flexShrink'', ''flexBasis'',
     ''alignSelf'', ''aspectRatio'', ''zIndex'', ''direction'',
     ''transform'', ''transformMatrix'', ''decomposedMatrix'', ''scaleX'', ''scaleY'',
     ''rotation'', ''translateX'', ''translateY'',
     ''backfaceVisibility'', ''backgroundColor'', ''borderColor'', ''borderTopColor'',
     ''borderRightColor'', ''borderBottomColor'', ''borderLeftColor'', ''borderStartColor'',
     ''borderEndColor'', ''borderRadius'', ''borderTopLeftRadius'', ''borderTopRightRadius'',
     ''borderTopStartRadius'', ''borderTopEndRadius'', ''borderBottomLeftRadius'',
     ''borderBottomRightRadius'', ''borderBottomStartRadius'', ''borderBottomEndRadius'',
     ''borderStyle'']"

definition includePropsForNativeStyles :: "string list" where
  "includePropsForNativeStyles =
    [''display'', ''width'', ''height'', ''start'', ''end'', ''top'', ''left'', ''right'',
     ''bottom'', ''minWidth'', ''maxWidth'', ''minHeight'', ''maxHeight'',
     ''margin'', ''marginVertical'', ''marginHorizontal'', ''marginTop'', ''marginBottom'',
     ''marginLeft'', ''marginRight'', ''marginStart'', ''marginEnd'',
     ''position'', ''flexDirection'', ''flexWrap'', ''flex'', ''flexGrow'', ''flexShrink'',
     ''flexBasis'', ''alignSelf'', ''aspectRatio'', ''zIndex'', ''direction'',
     ''transform'']"

definition excludePropsForStyles :: "string list" where
  "excludePropsForStyles =
    [''display'', ''start'', ''end'', ''top'', ''left'', ''right'', ''bottom'',
     ''minWidth'', ''maxWidth'', ''minHeight'', ''maxHeight'',
     ''margin'', ''marginVertical'', ''marginHorizontal'', ''marginTop'', ''marginBottom'',
     ''marginLeft'', ''marginRight'', ''marginStart'', ''marginEnd'',
     ''position'', ''alignSelf'', ''alignContent'', ''overflow'',
     ''flexGrow'', ''flexShrink'', ''flexBasis'', ''aspectRatio'', ''zIndex'', ''direction'',
     ''transform'', ''transformMatrix'', ''decomposedMatrix'', ''scaleX'', ''scaleY'',
     ''rotation'', ''translateX'', ''translateY'',
     ''textAlign'']"

text \<open>\<open>Array.prototype.indexOf\<close>: the first index holding the key, or -1.\<close>

fun indexOf :: "string list \<Rightarrow> string \<Rightarrow> int" where
  "indexOf [] k = - 1"
| "indexOf (x # xs) k =
     (if x = k then 0 else (let i = indexOf xs k in if i = - 1 then - 1 else i + 1))"

section \<open>getFilteredStyle and the three buckets\<close>

text \<open>
  The host framework is a parameter: \<open>StyleSheet.flatten\<close>, the \<open>View\<close> type and
  \<open>Animated.createAnimatedComponent\<close>, which makes a new component type at every call
  (the number counts the calls made so far during one invocation of the wrapper).
\<close>

record reactNative =
  StyleSheet_flatten :: "jsval \<Rightarrow> jsval"
  View :: jsval
  Animated_createAnimatedComponent :: "jsval \<Rightarrow> nat \<Rightarrow> jsval"

text \<open>
  The body of \<open>keys.forEach(key => ...)\<close> and of \<open>flattenedStyle.forEach(s => ...)\<close>,
  each as one step on the accumulator \<open>retVal\<close>: its own properties and its prototype.
  In getFilteredStyle, \<open>entries\<close> is what the second \<open>forEach\<close> runs over: the array
  itself, or the one-element array a value that is no array is wrapped into.  The result
  is the accumulator's own properties.
\<close>

definition keyStep ::
  "(string \<Rightarrow> bool) \<Rightarrow> jsval \<Rightarrow> obj \<times> prototype \<Rightarrow> string \<Rightarrow> obj \<times> prototype" where
  "keyStep shouldIncludeKey s retVal k =
     (if \<not> isNumber k \<and> shouldIncludeKey k then putProp retVal k (getProp s k) else retVal)"

definition styleStep ::
  "(string \<Rightarrow> bool) \<Rightarrow> obj \<times> prototype \<Rightarrow> jsval \<Rightarrow> obj \<times> prototype" where
  "styleStep shouldIncludeKey retVal s =
     (if truthy s then foldl (keyStep shouldIncludeKey s) retVal (objectKeys s) else retVal)"

definition getFilteredStyle :: "reactNative \<Rightarrow> jsval \<Rightarrow> (string \<Rightarrow> bool) \<Rightarrow> jsval" where
  "getFilteredStyle rn styles shouldIncludeKey =
     (if \<not> truthy styles then styles
      else
        let flattenedStyle =
              (if \<not> instanceofObject styles then StyleSheet_flatten rn styles else styles)
        in
          if \<not> truthy flattenedStyle then styles
          else
            let entries =
                  (case flattenedStyle of JArr xs \<Rightarrow> xs | v \<Rightarrow> [v])
            in JObj (fst (foldl (styleStep shouldIncludeKey) ([], ObjectPrototype) entries)))"

definition getNativeAnimatableStyles :: "reactNative \<Rightarrow> jsval \<Rightarrow> jsval" where
  "getNativeAnimatableStyles rn styles =
     getFilteredStyle rn styles (\<lambda>k. indexOf includePropsForNativeStyles k > - 1)"

definition getAnimatableStyles :: "reactNative \<Rightarrow> jsval \<Rightarrow> jsval" where
  "getAnimatableStyles rn styles =
     getFilteredStyle rn styles (\<lambda>k. indexOf excludePropsForStyles k = - 1)"

definition getComponentStyles :: "reactNative \<Rightarrow> jsval \<Rightarrow> jsval" where
  "getComponentStyles rn styles =
     getFilteredStyle rn styles (\<lambda>k. indexOf excludePropsForComponent k = - 1)"

section \<open>createAnimatedWrapper\<close>

text \<open>
  The component handed in is read at \<open>type\<close>, \<open>props\<close>, \<open>key\<close>, \<open>ref\<close> and
  \<open>onLayout\<close>; a field it does not have reads as \<open>undefined\<close>.  \<open>React.createElement\<close>
  belongs to the host: an element is kept as the call that made it, with the component
  type, the props object passed and the children passed.
\<close>

record component =
  type :: jsval
  props :: obj
  key :: jsval
  ref :: jsval
  onLayout :: jsval

datatype element =
  createElement (etype: jsval) (config: obj) (children: "element list")

definition createAnimated :: "reactNative \<Rightarrow> nat \<Rightarrow> jsval" where
  "createAnimated rn calls = Animated_createAnimatedComponent rn (View rn) calls"

definition createAnimatedWrapper ::
  "reactNative \<Rightarrow> component \<Rightarrow> jsval \<Rightarrow> jsval \<Rightarrow> jsval \<Rightarrow> jsval \<Rightarrow> element" where
  "createAnimatedWrapper rn component nativeStyles styles nativeCached cached =
     (let nativeAnimatedComponent =
            (if truthy nativeCached then nativeCached else createAnimated rn 0);
          animatedComponent =
            (if truthy cached then cached
             else createAnimated rn (if truthy nativeCached then 0 else 1));
          style = getProp (JObj (props component)) ''style'';
          nativeAnimatedStyles = getNativeAnimatableStyles rn style;
          animatedStyles = getAnimatableStyles rn style;
          componentStyles = getComponentStyles rn style;
          innerElement =
            createElement (type component)
              (setProp (props component) ''style'' componentStyles) [];
          animatedElement =
            createElement animatedComponent
              [(''style'',
                JArr [animatedStyles, styles, JObj [(''overflow'', JStr ''hidden'')]])]
              [innerElement];
          props0 =
            [(''collapsable'', JBool False),
             (''style'', JArr [nativeAnimatedStyles, nativeStyles])];
          props1 =
            (if truthy (key component) then setProp props0 ''key'' (key component)
             else props0);
          props2 =
            (if truthy (ref component) then setProp props1 ''ref'' (ref component)
             else props1);
          props3 =
            (if truthy (onLayout component)
             then setProp props2 ''onLayout'' (onLayout component) else props2)
      in createElement nativeAnimatedComponent props3 [animatedElement])"

text \<open>
  A host with an empty style registry (\<open>StyleSheet.flatten\<close> finds nothing) and two
  opaque component types, for evaluating the module on concrete inputs.
\<close>

definition hostRN :: reactNative where
  "hostRN = \<lparr> StyleSheet_flatten = (\<lambda>v. JUndefined), View = JFun 0,
              Animated_createAnimatedComponent = (\<lambda>v n. JFun (Suc n)) \<rparr>"

section \<open>Properties of the helpers\<close>

lemma indexOf_ge: "- 1 \<le> indexOf xs k"
  by (induction xs) (auto simp: Let_def)

lemma indexOf_absent: "(indexOf xs k = - 1) = (k \<notin> set xs)"
proof (induction xs)
  case Nil
  show ?case by simp
next
  case (Cons x xs)
  have "indexOf xs k + 1 \<noteq> - 1" using indexOf_ge [of xs k] by arith
  with Cons show ?case by (auto simp: Let_def)
qed

lemma indexOf_present: "(indexOf xs k > - 1) = (k \<in> set xs)"
  using indexOf_ge [of xs k] indexOf_absent [of xs k] by arith

lemma map_of_setProp: "map_of (setProp kvs k v) = (map_of kvs)(k \<mapsto> v)"
  by (induction kvs) (auto simp: fun_eq_iff)

lemma keys_setProp: "fst ` set (setProp kvs k v) = insert k (fst ` set kvs)"
  by (induction kvs) auto

lemma order_setProp:
  "map fst (setProp kvs k v) =
     (if k \<in> fst ` set kvs then map fst kvs else map fst kvs @ [k])"
  by (induction kvs) auto

lemma setProp_new: "k \<notin> fst ` set kvs \<Longrightarrow> setProp kvs k v = kvs @ [(k, v)]"
  by (induction kvs) auto

lemma inherited_stores:
  "k \<noteq> ''__proto__'' \<Longrightarrow> k \<noteq> ''length'' \<Longrightarrow> k \<noteq> ''name'' \<Longrightarrow> inherited pr k = Stores"
  by (cases "(pr, k)" rule: inherited.cases) auto

lemma putProp_stores:
  "k \<noteq> ''__proto__'' \<Longrightarrow> k \<noteq> ''length'' \<Longrightarrow> k \<noteq> ''name'' \<Longrightarrow>
   fst (putProp r k v) = setProp (fst r) k v"
  by (simp add: putProp_def inherited_stores)

lemma putProp_keys: "fst ` set (fst (putProp r k v)) \<subseteq> insert k (fst ` set (fst r))"
  by (auto simp: putProp_def keys_setProp split: assignment.splits)

lemma keyStep_keys:
  "fst ` set (fst (keyStep p s r k)) \<subseteq>
     fst ` set (fst r) \<union> {k'. k' = k \<and> \<not> isNumber k \<and> p k}"
  using putProp_keys [of r k "getProp s k"] by (auto simp: keyStep_def)

lemma keys_keyStep:
  "fst ` set (fst (foldl (keyStep p s) r ks)) \<subseteq>
     fst ` set (fst r) \<union> {k \<in> set ks. \<not> isNumber k \<and> p k}"
proof (induction ks arbitrary: r)
  case Nil
  show ?case by simp
next
  case (Cons a ks)
  from Cons [of "keyStep p s r a"] keyStep_keys [of p s r a]
  show ?case by auto
qed



lemma keys_styleStep:
  "fst ` set (fst (foldl (styleStep p) r es)) \<subseteq>
     fst ` set (fst r) \<union>
     {k. \<exists>s. s \<in> set es \<and> truthy s \<and> k \<in> set (objectKeys s) \<and> \<not> isNumber k \<and> p k}"
proof (induction es arbitrary: r)
  case Nil
  show ?case by simp
next
  case (Cons e es)
  let ?B = "{k. truthy e \<and> k \<in> set (objectKeys e) \<and> \<not> isNumber k \<and> p k}"
  let ?A = "{k. \<exists>s. s \<in> set es \<and> truthy s \<and> k \<in> set (objectKeys s) \<and> \<not> isNumber k \<and> p k}"
  let ?C = "{k. \<exists>s. s \<in> set (e # es) \<and> truthy s \<and> k \<in> set (objectKeys s) \<and> \<not> isNumber k \<and> p k}"
  have one: "fst ` set (fst (styleStep p r e)) \<subseteq> fst ` set (fst r) \<union> ?B"
  proof (cases "truthy e")
    case True
    with keys_keyStep [of p e r "objectKeys e"] show ?thesis
      by (simp add: styleStep_def)
  next
    case False
    then show ?thesis by (simp add: styleStep_def)
  qed
  have ih: "fst ` set (fst (foldl (styleStep p) (styleStep p r e) es)) \<subseteq>
      fst ` set (fst (styleStep p r e)) \<union> ?A"
    by (rule Cons)
  have b: "?B \<subseteq> ?C" by (simp add: subset_iff) blast
  have a: "?A \<subseteq> ?C" by (simp add: subset_iff) blast
  from ih one a b have "fst ` set (fst (foldl (styleStep p) (styleStep p r e) es)) \<subseteq>
      fst ` set (fst r) \<union> ?C"
    by blast
  then show ?case by simp
qed





lemma setProp_twice: "setProp (setProp kvs k v) k w = setProp kvs k w"
  by (induction kvs) auto

lemma lookupOr_setProp: "lookupOr (setProp kvs k v) k = v"
  by (simp add: lookupOr_def map_of_setProp)

lemma not_isNumber_transform: "\<not> isNumber ''transform''"
  by code_simp

lemma not_isNumber_backgroundColor: "\<not> isNumber ''backgroundColor''"
  by code_simp

lemma not_isNumber_flex: "\<not> isNumber ''flex''"
  by code_simp

lemma filtered_object:
  "getFilteredStyle rn (JObj kvs) p =
     JObj (fst (foldl (keyStep p (JObj kvs)) ([], ObjectPrototype) (map fst kvs)))"
  by (simp add: getFilteredStyle_def styleStep_def)

lemma example_native:
  "getNativeAnimatableStyles rn
     (JObj [(''transform'', t), (''backgroundColor'', JStr ''red''), (''flex'', JNum (Finite 1))]) =
   JObj [(''transform'', t), (''flex'', JNum (Finite 1))]"
  by (simp add: getNativeAnimatableStyles_def filtered_object keyStep_def putProp_def lookupOr_def
      indexOf_present includePropsForNativeStyles_def
      not_isNumber_transform not_isNumber_backgroundColor not_isNumber_flex)

lemma example_general:
  "getAnimatableStyles rn
     (JObj [(''transform'', t), (''backgroundColor'', JStr ''red''), (''flex'', JNum (Finite 1))]) =
   JObj [(''backgroundColor'', JStr ''red''), (''flex'', JNum (Finite 1))]"
  by (simp add: getAnimatableStyles_def filtered_object keyStep_def putProp_def lookupOr_def
      indexOf_absent excludePropsForStyles_def
      not_isNumber_transform not_isNumber_backgroundColor not_isNumber_flex)

lemma example_static:
  "getComponentStyles rn
     (JObj [(''transform'', t), (''backgroundColor'', JStr ''red''), (''flex'', JNum (Finite 1))]) =
   JObj []"
  by (simp add: getComponentStyles_def filtered_object keyStep_def putProp_def lookupOr_def
      indexOf_absent excludePropsForComponent_def
      not_isNumber_transform not_isNumber_backgroundColor not_isNumber_flex)

lemma digit_not_white: "isDecimalDigit c \<Longrightarrow> \<not> isStrWhiteSpaceChar c"
  by (auto simp: isDecimalDigit_def isStrWhiteSpaceChar_def)

lemma digit_not_sign: "isDecimalDigit c \<Longrightarrow> c \<noteq> CHR ''+'' \<and> c \<noteq> CHR ''-''"
  by (auto simp: isDecimalDigit_def)

lemma digits_unsigned_literal:
  assumes "isDecimalDigits s"
  shows "isStrUnsignedDecimalLiteral s"
proof -
  from assms have ne: "s \<noteq> []" and all: "\<forall>c\<in>set s. isDecimalDigit c"
    by (simp_all add: isDecimalDigits_def list_all_iff)
  from all have tw: "takeWhile isDecimalDigit s = s" and dw: "dropWhile isDecimalDigit s = []"
    by simp_all
  show ?thesis
    unfolding isStrUnsignedDecimalLiteral_def Let_def tw dw using ne by simp
qed

lemma digits_literal:
  assumes "isDecimalDigits s"
  shows "isStrDecimalLiteral s"
proof (cases s)
  case Nil
  with assms show ?thesis by (simp add: isDecimalDigits_def)
next
  case (Cons c r)
  with assms have "isDecimalDigit c" by (simp add: isDecimalDigits_def)
  then have "c \<noteq> CHR ''+'' \<and> c \<noteq> CHR ''-''" by (rule digit_not_sign)
  with digits_unsigned_literal [OF assms] Cons show ?thesis by simp
qed

lemma digits_trimStart:
  assumes "isDecimalDigits s"
  shows "trimStart s = s"
proof (cases s)
  case Nil
  then show ?thesis by (simp add: trimStart_def)
next
  case (Cons c r)
  with assms have "isDecimalDigit c" by (simp add: isDecimalDigits_def)
  then have "\<not> isStrWhiteSpaceChar c" by (rule digit_not_white)
  with Cons show ?thesis by (simp add: trimStart_def)
qed

lemma digits_trim:
  assumes "isDecimalDigits s"
  shows "trim s = s"
proof -
  from assms have ne: "s \<noteq> []" and all: "\<forall>c\<in>set s. isDecimalDigit c"
    by (simp_all add: isDecimalDigits_def list_all_iff)
  from ne have "last s \<in> set s" by simp
  with all have "isDecimalDigit (last s)" by blast
  then have nw: "\<not> isStrWhiteSpaceChar (last s)" by (rule digit_not_white)
  from ne obtain x xs where r: "rev s = x # xs" by (cases "rev s") auto
  then have "s = rev xs @ [x]" by (metis rev.simps(2) rev_rev_ident)
  then have "last s = x" by simp
  with nw r have "dropWhile isStrWhiteSpaceChar (rev s) = rev s" by simp
  then show ?thesis by (simp add: trim_def digits_trimStart [OF assms])
qed

lemma digits_isNumber:
  assumes "isDecimalDigits s"
  shows "isNumber s"
proof -
  have "s \<in> set (prefixes s)" by (simp add: in_set_prefixes)
  with digits_literal [OF assms] have "list_ex isStrDecimalLiteral (prefixes s)"
    unfolding list_ex_iff by blast
  then have "\<not> parseFloatIsNaN s"
    by (simp add: parseFloatIsNaN_def digits_trimStart [OF assms])
  moreover have "\<not> toNumberIsNaN s"
    by (simp add: toNumberIsNaN_def digits_trim [OF assms] isStrNumericLiteral_def
        digits_literal [OF assms])
  ultimately show ?thesis by (simp add: isNumber_def)
qed

lemma digitChar_digit: "d < 10 \<Longrightarrow> isDecimalDigit (digitChar d)"
proof -
  assume "d < 10"
  then have "d < length ''0123456789''" by simp
  then have "''0123456789'' ! d \<in> set ''0123456789''" by (rule nth_mem)
  then show ?thesis by (simp only: isDecimalDigit_def digitChar_def)
qed

lemma decimal_digits: "isDecimalDigits (decimal n)"
proof (induction n rule: decimal.induct)
  case (1 n)
  show ?case
  proof (cases "n < 10")
    case True
    then show ?thesis
      by (simp add: decimal.simps [of n] isDecimalDigits_def digitChar_digit)
  next
    case False
    have "n mod 10 < 10" by simp
    then have "isDecimalDigit (digitChar (n mod 10))" by (rule digitChar_digit)
    with 1 False show ?thesis
      by (simp add: decimal.simps [of n] isDecimalDigits_def)
  qed
qed

lemma indexKeys_numbers: "k \<in> set (indexKeys n) \<Longrightarrow> isNumber k"
  by (auto simp: indexKeys_def intro: digits_isNumber decimal_digits)

lemma keyStep_numbers:
  "\<forall>k\<in>set ks. isNumber k \<Longrightarrow> foldl (keyStep p s) r ks = r"
  by (induction ks arbitrary: r) (auto simp: keyStep_def)

lemma styleStep_array: "styleStep p r (JArr xs) = r"
  by (simp add: styleStep_def keyStep_numbers indexKeys_numbers)

lemma styleStep_string: "styleStep p r (JStr s) = r"
  by (simp add: styleStep_def keyStep_numbers indexKeys_numbers)

lemma filtered_cases:
  "getFilteredStyle rn styles p =
     (if \<not> truthy styles \<or> \<not> instanceofObject styles \<and> \<not> truthy (StyleSheet_flatten rn styles)
      then styles
      else JObj (fst (foldl (styleStep p) ([], ObjectPrototype)
             (case (if instanceofObject styles then styles else StyleSheet_flatten rn styles) of
                JArr xs \<Rightarrow> xs | v \<Rightarrow> [v]))))"
  by (auto simp: getFilteredStyle_def Let_def)

lemma unchanged_no_keys:
  "\<not> truthy styles \<or> \<not> instanceofObject styles \<Longrightarrow> bucketKeys styles = {}"
  by (cases styles) auto

lemma filtered_subset:
  "bucketKeys (getFilteredStyle rn styles p) \<subseteq> {k. \<not> isNumber k \<and> p k}"
proof (cases "\<not> truthy styles \<or> \<not> instanceofObject styles \<and> \<not> truthy (StyleSheet_flatten rn styles)")
  case True
  then have "getFilteredStyle rn styles p = styles" by (simp add: filtered_cases)
  moreover from True have "bucketKeys styles = {}" by (intro unchanged_no_keys) blast
  ultimately show ?thesis by simp
next
  case False
  then show ?thesis
    using keys_styleStep [of p "([], ObjectPrototype)"]
    by (simp only: filtered_cases if_False bucketKeys.simps) auto
qed

lemma filtered_no_numbers:
  assumes "isNumber k"
  shows "k \<notin> bucketKeys (getFilteredStyle rn styles p)"
  using filtered_subset [of rn styles p] assms by blast







lemma filtered_array:
  "getFilteredStyle rn (JArr es) p = JObj (fst (foldl (styleStep p) ([], ObjectPrototype) es))"
  by (simp add: filtered_cases)


lemma forced_last:
  assumes "p k" "\<not> isNumber k" "k \<noteq> ''__proto__''" "k \<noteq> ''length''" "k \<noteq> ''name''"
  shows "map_of (fst (foldl (styleStep p) r (es @ [JObj [(k, v)]]))) k = Some v"
  using assms
  by (simp add: styleStep_def keyStep_def putProp_stores map_of_setProp lookupOr_def)


lemma outer_config:
  "config (createAnimatedWrapper rn c nativeStyles styles nativeCached cached) =
     [(''collapsable'', JBool False),
      (''style'', JArr [getNativeAnimatableStyles rn (getProp (JObj (props c)) ''style''),
                        nativeStyles])]
     @ (if truthy (key c) then [(''key'', key c)] else [])
     @ (if truthy (ref c) then [(''ref'', ref c)] else [])
     @ (if truthy (onLayout c) then [(''onLayout'', onLayout c)] else [])"
  by (simp add: createAnimatedWrapper_def Let_def setProp_new)

lemma wrapper_shape:
  "createAnimatedWrapper rn c nativeStyles styles nativeCached cached =
     createElement
       (if truthy nativeCached then nativeCached else createAnimated rn 0)
       (config (createAnimatedWrapper rn c nativeStyles styles nativeCached cached))
       [createElement
          (if truthy cached then cached
           else createAnimated rn (if truthy nativeCached then 0 else 1))
          [(''style'',
            JArr [getAnimatableStyles rn (getProp (JObj (props c)) ''style''), styles,
                  JObj [(''overflow'', JStr ''hidden'')]])]
          [createElement (type c)
             (setProp (props c) ''style''
                (getComponentStyles rn (getProp (JObj (props c)) ''style''))) []]]"
  by (simp add: createAnimatedWrapper_def Let_def)

lemma general_excludes:
  "k \<in> set excludePropsForStyles \<Longrightarrow> k \<notin> bucketKeys (getAnimatableStyles rn styles)"
  using filtered_subset [of rn styles "\<lambda>k. indexOf excludePropsForStyles k = - 1"]
  by (auto simp: getAnimatableStyles_def indexOf_absent)

lemma not_isNumber_overflow: "\<not> isNumber ''overflow''"
  by code_simp

section \<open>The claims\<close>

text \<open>
  C1 (as the code has it).  For a component whose style is
  \<open>{transform: t, backgroundColor: 'red', flex: 1}\<close>, whatever its other props and
  whatever \<open>t\<close> is, createAnimatedWrapper gives the outer (native) container the bucket
  with exactly \<open>transform\<close> and \<open>flex\<close>, the middle (general) container the bucket
  with \<open>backgroundColor\<close> and \<open>flex\<close> and without \<open>transform\<close>, and the re-created
  component an empty style mapping.  \<open>flex\<close> is commented out of excludePropsForStyles,
  so it stays in the general bucket.
\<close>

theorem compose_example_buckets:
  "\<exists>outerType middleType forwarded.
     createAnimatedWrapper rn
       \<lparr> type = ty,
         props = setProp ps ''style''
           (JObj [(''transform'', t), (''backgroundColor'', JStr ''red''),
                  (''flex'', JNum (Finite 1))]),
         key = k, ref = r, onLayout = l \<rparr>
       nativeStyles styles nativeCached cached =
     createElement outerType
       ([(''collapsable'', JBool False),
         (''style'', JArr [JObj [(''transform'', t), (''flex'', JNum (Finite 1))], nativeStyles])]
        @ forwarded)
       [createElement middleType
          [(''style'',
            JArr [JObj [(''backgroundColor'', JStr ''red''), (''flex'', JNum (Finite 1))],
                  styles, JObj [(''overflow'', JStr ''hidden'')]])]
          [createElement ty (setProp ps ''style'' (JObj [])) []]]"
  by (simp add: createAnimatedWrapper_def Let_def lookupOr_setProp setProp_twice
      example_native example_general example_static)

text \<open>
  C1 as stated fails: for the style of the claim the general-driver bucket contains
  \<open>flex\<close>.
\<close>

theorem compose_example_counterexample:
  "''flex'' \<in> bucketKeys (getAnimatableStyles hostRN
      (JObj [(''transform'', JArr [JObj [(''rotate'', JStr ''90deg'')]]),
             (''backgroundColor'', JStr ''red''), (''flex'', JNum (Finite 1))]))"
  by (simp add: example_general)







text \<open>
  C4.  A key that isNumber accepts, which every non-empty string of decimal digits such
  as \<open>"0"\<close> and \<open>"1"\<close> is, is in no result of getFilteredStyle, whatever the style, the
  host and the filter are; in particular it is in none of the three buckets.
\<close>

theorem numeric_keys_absent:
  assumes "isNumber k \<or> isDecimalDigits k"
  shows "k \<notin> bucketKeys (getFilteredStyle rn styles p)
       \<and> k \<notin> bucketKeys (getNativeAnimatableStyles rn styles)
       \<and> k \<notin> bucketKeys (getAnimatableStyles rn styles)
       \<and> k \<notin> bucketKeys (getComponentStyles rn styles)"
proof -
  from assms have "isNumber k" using digits_isNumber by blast
  then show ?thesis
    unfolding getNativeAnimatableStyles_def getAnimatableStyles_def getComponentStyles_def
    by (simp add: filtered_no_numbers)
qed

text \<open>
  The keys \<open>"0"\<close> and \<open>"1"\<close> of \<open>{"0": 'a', "1": 'b', color: 'red'}\<close> are dropped
  although no table lists them.
\<close>

theorem numeric_keys_absent_witness:
  "isDecimalDigits ''0'' \<and> isNumber ''1''
   \<and> ''0'' \<notin> bucketKeys (getComponentStyles hostRN
        (JObj [(''0'', JStr ''a''), (''1'', JStr ''b''), (''color'', JStr ''red'')]))
   \<and> ''1'' \<notin> bucketKeys (getAnimatableStyles hostRN
        (JObj [(''0'', JStr ''a''), (''1'', JStr ''b''), (''color'', JStr ''red'')]))"
proof -
  have d: "isDecimalDigits ''0''" by code_simp
  have n: "isNumber ''1''" by code_simp
  from d have h0: "isNumber ''0'' \<or> isDecimalDigits ''0''" by simp
  from n have h1: "isNumber ''1'' \<or> isDecimalDigits ''1''" by simp
  from numeric_keys_absent [OF h0] numeric_keys_absent [OF h1] d n
  show ?thesis by blast
qed

text \<open>
  C5 (as the code has it).  getFilteredStyle returns its input unchanged when the input
  is falsy, and when the input is a truthy non-object whose \<open>StyleSheet.flatten\<close> result
  is falsy.  Every other input is filtered into a mapping, also when nothing is left to
  filter: the empty mapping and the empty sequence both give the empty mapping.
\<close>

theorem filtered_passthrough:
  "(\<not> truthy styles \<longrightarrow> getFilteredStyle rn styles p = styles)
   \<and> (truthy styles \<and> \<not> instanceofObject styles \<and> \<not> truthy (StyleSheet_flatten rn styles)
        \<longrightarrow> getFilteredStyle rn styles p = styles)
   \<and> (truthy styles \<and> (instanceofObject styles \<or> truthy (StyleSheet_flatten rn styles))
        \<longrightarrow> (\<exists>retVal. getFilteredStyle rn styles p = JObj retVal))
   \<and> getFilteredStyle rn (JObj []) p = JObj []
   \<and> getFilteredStyle rn (JArr []) p = JObj []"
  by (auto simp: filtered_cases styleStep_def)

text \<open>
  The pass-through theorem at \<open>undefined\<close>, \<open>null\<close>, the unregistered style number 7
  and the sequence \<open>[null]\<close>.
\<close>

theorem filtered_passthrough_witness:
  "getComponentStyles hostRN JUndefined = JUndefined
   \<and> getComponentStyles hostRN JNull = JNull
   \<and> getComponentStyles hostRN (JNum (Finite 7)) = JNum (Finite 7)
   \<and> (\<exists>retVal. getComponentStyles hostRN (JArr [JNull]) = JObj retVal)"
  using filtered_passthrough [of JUndefined hostRN "\<lambda>k. indexOf excludePropsForComponent k = - 1"]
    filtered_passthrough [of JNull hostRN "\<lambda>k. indexOf excludePropsForComponent k = - 1"]
    filtered_passthrough [of "JNum (Finite 7)" hostRN "\<lambda>k. indexOf excludePropsForComponent k = - 1"]
    filtered_passthrough [of "JArr [JNull]" hostRN "\<lambda>k. indexOf excludePropsForComponent k = - 1"]
  by (simp add: getComponentStyles_def hostRN_def)

text \<open>
  C5 as stated fails: the empty sequence and the sequence \<open>[{}]\<close> flatten to nothing,
  yet the result is a new empty mapping and not the input.
\<close>

theorem filtered_passthrough_counterexample:
  "getComponentStyles hostRN (JArr []) = JObj []
   \<and> getComponentStyles hostRN (JArr []) \<noteq> JArr []
   \<and> getComponentStyles hostRN (JArr [JObj []]) = JObj []
   \<and> getComponentStyles hostRN (JArr [JObj []]) \<noteq> JArr [JObj []]"
  by (simp add: getComponentStyles_def filtered_array styleStep_def)

text \<open>
  C6.  Whatever the component and the \<open>styles\<close> argument are, the middle
  (general-driver) container is created with the single prop \<open>style\<close>, the three-element
  sequence of the general-driver bucket, the caller's \<open>styles\<close> and
  \<open>{overflow: 'hidden'}\<close>, in this order.  The component's own \<open>overflow\<close> never reaches
  the bucket, and merging such a sequence the way this module merges sequences (last
  write wins, with a filter that lets \<open>overflow\<close> through) gives \<open>overflow: 'hidden'\<close>
  whatever the first two entries hold.
\<close>

theorem middle_style_forces_overflow:
  "(\<exists>outerType outerProps middleType inner.
      createAnimatedWrapper rn c nativeStyles styles nativeCached cached =
      createElement outerType outerProps
        [createElement middleType
           [(''style'',
             JArr [getAnimatableStyles rn (getProp (JObj (props c)) ''style''), styles,
                   JObj [(''overflow'', JStr ''hidden'')]])]
           [inner]])
   \<and> ''overflow'' \<notin> bucketKeys (getAnimatableStyles rn (getProp (JObj (props c)) ''style''))
   \<and> (p ''overflow'' \<longrightarrow>
        getProp (getFilteredStyle rn
          (JArr [bucket, styles, JObj [(''overflow'', JStr ''hidden'')]]) p) ''overflow''
        = JStr ''hidden'')"
proof -
  have 1: "\<exists>outerType outerProps middleType inner.
      createAnimatedWrapper rn c nativeStyles styles nativeCached cached =
      createElement outerType outerProps
        [createElement middleType
           [(''style'',
             JArr [getAnimatableStyles rn (getProp (JObj (props c)) ''style''), styles,
                   JObj [(''overflow'', JStr ''hidden'')]])]
           [inner]]"
    using wrapper_shape [of rn c nativeStyles styles nativeCached cached] by blast
  have 2: "''overflow'' \<notin> bucketKeys (getAnimatableStyles rn (getProp (JObj (props c)) ''style''))"
    by (rule general_excludes) (simp add: excludePropsForStyles_def)
  have 3: "getProp (getFilteredStyle rn
          (JArr [bucket, styles, JObj [(''overflow'', JStr ''hidden'')]]) p) ''overflow''
        = JStr ''hidden''" if p: "p ''overflow''"
  proof -
    have "map_of (fst (foldl (styleStep p) ([], ObjectPrototype)
            ([bucket, styles] @ [JObj [(''overflow'', JStr ''hidden'')]]))) ''overflow''
          = Some (JStr ''hidden'')"
      by (rule forced_last) (use p not_isNumber_overflow in simp_all)
    then show ?thesis by (simp add: filtered_array lookupOr_def)
  qed
  from 1 2 3 show ?thesis by blast
qed

text \<open>
  The caller's \<open>{overflow: 'visible'}\<close> loses against the forced last entry.
\<close>

theorem middle_style_forces_overflow_witness:
  "getProp (getComponentStyles hostRN
      (JArr [JObj [(''color'', JStr ''red'')], JObj [(''overflow'', JStr ''visible'')],
             JObj [(''overflow'', JStr ''hidden'')]])) ''overflow'' = JStr ''hidden''"
proof -
  have p: "indexOf excludePropsForComponent ''overflow'' = - 1"
    by (simp add: indexOf_absent excludePropsForComponent_def)
  from middle_style_forces_overflow
    [of hostRN _ _ "JObj [(''overflow'', JStr ''visible'')]" _ _
        "\<lambda>k. indexOf excludePropsForComponent k = - 1" "JObj [(''color'', JStr ''red'')]"] p
  show ?thesis by (simp add: getComponentStyles_def)
qed

text \<open>
  C7.  The innermost element is created with the original component's type and no
  children argument.  Its props are the original props with \<open>style\<close> set to the static
  bucket of the original style: every other key has the value it had, no other key is
  added or removed, and the order of the keys is kept (\<open>style\<close> goes last when the
  original had none).
\<close>

theorem inner_element_props:
  "\<exists>outerType outerProps middleType middleProps innerProps.
      createAnimatedWrapper rn c nativeStyles styles nativeCached cached =
      createElement outerType outerProps
        [createElement middleType middleProps [createElement (type c) innerProps []]]
      \<and> map_of innerProps =
          (map_of (props c))(''style'' \<mapsto>
             getComponentStyles rn (getProp (JObj (props c)) ''style''))
      \<and> map fst innerProps =
          (if ''style'' \<in> fst ` set (props c) then map fst (props c)
           else map fst (props c) @ [''style''])"
proof -
  let ?inner = "setProp (props c) ''style''
      (getComponentStyles rn (getProp (JObj (props c)) ''style''))"
  have "map_of ?inner = (map_of (props c))(''style'' \<mapsto>
             getComponentStyles rn (getProp (JObj (props c)) ''style''))"
    by (rule map_of_setProp)
  moreover have "map fst ?inner =
          (if ''style'' \<in> fst ` set (props c) then map fst (props c)
           else map fst (props c) @ [''style''])"
    by (rule order_setProp)
  ultimately show ?thesis
    using wrapper_shape [of rn c nativeStyles styles nativeCached cached] by blast
qed

text \<open>
  C8 (as the code has it).  The props of the outermost container are, in this order:
  \<open>collapsable: false\<close>; \<open>style\<close>, the two-element sequence of the fast-driver bucket
  and the caller's \<open>nativeStyles\<close>; then \<open>key\<close>, \<open>ref\<close> and \<open>onLayout\<close>, each present
  iff the component's field is truthy, and then with the component's value.  A component
  without a \<open>ref\<close> (undefined or null) gives props without any \<open>ref\<close> key.
\<close>

theorem outer_props_forwarding:
  "config (createAnimatedWrapper rn c nativeStyles styles nativeCached cached) =
     [(''collapsable'', JBool False),
      (''style'', JArr [getNativeAnimatableStyles rn (getProp (JObj (props c)) ''style''),
                        nativeStyles])]
     @ (if truthy (key c) then [(''key'', key c)] else [])
     @ (if truthy (ref c) then [(''ref'', ref c)] else [])
     @ (if truthy (onLayout c) then [(''onLayout'', onLayout c)] else [])
   \<and> ''ref'' \<notin> fst ` set (config
        (createAnimatedWrapper rn (c\<lparr>ref := JUndefined\<rparr>) nativeStyles styles nativeCached cached))
   \<and> ''ref'' \<notin> fst ` set (config
        (createAnimatedWrapper rn (c\<lparr>ref := JNull\<rparr>) nativeStyles styles nativeCached cached))"
  by (auto simp: outer_config)

text \<open>
  C8 as stated fails: a component whose key is the empty string has a key, and the outer
  props hold no \<open>key\<close>.
\<close>

theorem outer_props_forwarding_counterexample:
  "key \<lparr> type = JFun 7, props = [], key = JStr [], ref = JNull, onLayout = JUndefined \<rparr>
     \<noteq> JUndefined
   \<and> key \<lparr> type = JFun 7, props = [], key = JStr [], ref = JNull, onLayout = JUndefined \<rparr>
     \<noteq> JNull
   \<and> ''key'' \<notin> fst ` set (config (createAnimatedWrapper hostRN
        \<lparr> type = JFun 7, props = [], key = JStr [], ref = JNull, onLayout = JUndefined \<rparr>
        JUndefined JUndefined JUndefined JUndefined))"
  by (simp add: outer_config)

text \<open>
  C9 (as the code has it).  Every key listed in excludePropsForStyles is left out of the
  general-driver bucket, for every style.  The list holds all eight transform properties
  and the geometry properties \<open>start\<close>, \<open>end\<close>, \<open>top\<close>, \<open>left\<close>, \<open>right\<close>, \<open>bottom\<close>,
  the minimum and maximum sizes, the margins, \<open>position\<close>, \<open>flexGrow\<close>, \<open>flexShrink\<close>,
  \<open>flexBasis\<close> and \<open>aspectRatio\<close>.  It does not hold \<open>width\<close>, \<open>height\<close> and
  \<open>flex\<close> (they are commented out), which stay in the general-driver bucket.
\<close>

theorem general_bucket_exclusions:
  "(k \<in> set excludePropsForStyles \<longrightarrow> k \<notin> bucketKeys (getAnimatableStyles rn styles))
   \<and> set [''transform'', ''transformMatrix'', ''decomposedMatrix'', ''scaleX'', ''scaleY'',
          ''rotation'', ''translateX'', ''translateY''] \<subseteq> set excludePropsForStyles
   \<and> set [''start'', ''end'', ''top'', ''left'', ''right'', ''bottom'', ''minWidth'',
          ''maxWidth'', ''minHeight'', ''maxHeight'', ''margin'', ''position'',
          ''flexGrow'', ''flexShrink'', ''flexBasis'', ''aspectRatio''] \<subseteq> set excludePropsForStyles
   \<and> getAnimatableStyles rn (JObj [(''width'', w), (''height'', h), (''flex'', f)]) =
       JObj [(''width'', w), (''height'', h), (''flex'', f)]"
proof -
  have nw: "\<not> isNumber ''width''" by code_simp
  have nh: "\<not> isNumber ''height''" by code_simp
  have nf: "\<not> isNumber ''flex''" by code_simp
  have kept: "getAnimatableStyles rn (JObj [(''width'', w), (''height'', h), (''flex'', f)]) =
       JObj [(''width'', w), (''height'', h), (''flex'', f)]"
    by (simp add: getAnimatableStyles_def filtered_object keyStep_def putProp_def lookupOr_def
        indexOf_absent excludePropsForStyles_def nw nh nf)
  have lists: "set [''transform'', ''transformMatrix'', ''decomposedMatrix'', ''scaleX'', ''scaleY'',
          ''rotation'', ''translateX'', ''translateY''] \<subseteq> set excludePropsForStyles
   \<and> set [''start'', ''end'', ''top'', ''left'', ''right'', ''bottom'', ''minWidth'',
          ''maxWidth'', ''minHeight'', ''maxHeight'', ''margin'', ''position'',
          ''flexGrow'', ''flexShrink'', ''flexBasis'', ''aspectRatio''] \<subseteq> set excludePropsForStyles"
    by (simp add: excludePropsForStyles_def)
  from kept lists general_excludes [of k rn styles] show ?thesis by blast
qed

text \<open>
  The exclusion at \<open>{translateX: 4, color: 'red'}\<close>.
\<close>

theorem general_bucket_exclusions_witness:
  "''translateX'' \<in> set excludePropsForStyles
   \<and> ''translateX'' \<notin> bucketKeys (getAnimatableStyles hostRN
        (JObj [(''translateX'', JNum (Finite 4)), (''color'', JStr ''red'')]))"
proof -
  have m: "''translateX'' \<in> set excludePropsForStyles"
    by (simp add: excludePropsForStyles_def)
  with general_bucket_exclusions [of "''translateX''" hostRN
      "JObj [(''translateX'', JNum (Finite 4)), (''color'', JStr ''red'')]"]
  show ?thesis by blast
qed

text \<open>
  C9 as stated fails: \<open>width\<close>, \<open>height\<close> and \<open>flex\<close> are in the general-driver
  bucket of \<open>{width: 100, height: 50, flex: 1}\<close>.
\<close>

theorem general_bucket_counterexample:
  "''width'' \<in> bucketKeys (getAnimatableStyles hostRN
      (JObj [(''width'', JNum (Finite 100)), (''height'', JNum (Finite 50)),
             (''flex'', JNum (Finite 1))]))
   \<and> ''height'' \<in> bucketKeys (getAnimatableStyles hostRN
      (JObj [(''width'', JNum (Finite 100)), (''height'', JNum (Finite 50)),
             (''flex'', JNum (Finite 1))]))
   \<and> ''flex'' \<in> bucketKeys (getAnimatableStyles hostRN
      (JObj [(''width'', JNum (Finite 100)), (''height'', JNum (Finite 50)),
             (''flex'', JNum (Finite 1))]))"
proof -
  have nw: "\<not> isNumber ''width''" by code_simp
  have nh: "\<not> isNumber ''height''" by code_simp
  have nf: "\<not> isNumber ''flex''" by code_simp
  show ?thesis
    by (simp add: getAnimatableStyles_def filtered_object keyStep_def putProp_def lookupOr_def
        indexOf_absent excludePropsForStyles_def nw nh nf)
qed

text \<open>
  C10.  The tests \<open>if (component.key)\<close>, \<open>if (component.ref)\<close> and
  \<open>if (component.onLayout)\<close> are tests of truthiness.  A field that is falsy, present or
  not, is not forwarded: the outer props have no such key, and the whole result is the
  one obtained from the component with that field undefined.
\<close>

theorem falsy_fields_not_forwarded:
  "(\<not> truthy (key c) \<longrightarrow>
      ''key'' \<notin> fst ` set (config (createAnimatedWrapper rn c nativeStyles styles nativeCached cached))
      \<and> createAnimatedWrapper rn c nativeStyles styles nativeCached cached =
        createAnimatedWrapper rn (c\<lparr>key := JUndefined\<rparr>) nativeStyles styles nativeCached cached)
   \<and> (\<not> truthy (ref c) \<longrightarrow>
      ''ref'' \<notin> fst ` set (config (createAnimatedWrapper rn c nativeStyles styles nativeCached cached))
      \<and> createAnimatedWrapper rn c nativeStyles styles nativeCached cached =
        createAnimatedWrapper rn (c\<lparr>ref := JUndefined\<rparr>) nativeStyles styles nativeCached cached)
   \<and> (\<not> truthy (onLayout c) \<longrightarrow>
      ''onLayout'' \<notin> fst ` set (config (createAnimatedWrapper rn c nativeStyles styles nativeCached cached))
      \<and> createAnimatedWrapper rn c nativeStyles styles nativeCached cached =
        createAnimatedWrapper rn (c\<lparr>onLayout := JUndefined\<rparr>) nativeStyles styles nativeCached cached)"
proof -
  have k: "''key'' \<notin> fst ` set (config (createAnimatedWrapper rn c nativeStyles styles nativeCached cached))
      \<and> createAnimatedWrapper rn c nativeStyles styles nativeCached cached =
        createAnimatedWrapper rn (c\<lparr>key := JUndefined\<rparr>) nativeStyles styles nativeCached cached"
    if "\<not> truthy (key c)"
    using that by (simp add: outer_config) (simp add: createAnimatedWrapper_def Let_def)
  have r: "''ref'' \<notin> fst ` set (config (createAnimatedWrapper rn c nativeStyles styles nativeCached cached))
      \<and> createAnimatedWrapper rn c nativeStyles styles nativeCached cached =
        createAnimatedWrapper rn (c\<lparr>ref := JUndefined\<rparr>) nativeStyles styles nativeCached cached"
    if "\<not> truthy (ref c)"
    using that by (simp add: outer_config) (simp add: createAnimatedWrapper_def Let_def)
  have l: "''onLayout'' \<notin> fst ` set (config (createAnimatedWrapper rn c nativeStyles styles nativeCached cached))
      \<and> createAnimatedWrapper rn c nativeStyles styles nativeCached cached =
        createAnimatedWrapper rn (c\<lparr>onLayout := JUndefined\<rparr>) nativeStyles styles nativeCached cached"
    if "\<not> truthy (onLayout c)"
    using that by (simp add: outer_config) (simp add: createAnimatedWrapper_def Let_def)
  from k r l show ?thesis by blast
qed

text \<open>
  The keys \<open>""\<close> and \<open>0\<close> are present and falsy: neither is forwarded.
\<close>

theorem falsy_fields_not_forwarded_witness:
  "\<not> truthy (JStr []) \<and> \<not> truthy (JNum (Finite 0))
   \<and> ''key'' \<notin> fst ` set (config (createAnimatedWrapper hostRN
        \<lparr> type = JFun 7, props = [], key = JStr [], ref = JFun 8, onLayout = JFun 9 \<rparr>
        JUndefined JUndefined JUndefined JUndefined))
   \<and> ''key'' \<notin> fst ` set (config (createAnimatedWrapper hostRN
        \<lparr> type = JFun 7, props = [], key = JNum (Finite 0), ref = JFun 8, onLayout = JFun 9 \<rparr>
        JUndefined JUndefined JUndefined JUndefined))
   \<and> createAnimatedWrapper hostRN
        \<lparr> type = JFun 7, props = [], key = JStr [], ref = JFun 8, onLayout = JFun 9 \<rparr>
        JUndefined JUndefined JUndefined JUndefined
     = createAnimatedWrapper hostRN
        \<lparr> type = JFun 7, props = [], key = JUndefined, ref = JFun 8, onLayout = JFun 9 \<rparr>
        JUndefined JUndefined JUndefined JUndefined"
proof -
  let ?c1 = "\<lparr> type = JFun 7, props = [], key = JStr [], ref = JFun 8, onLayout = JFun 9 \<rparr>"
  let ?c2 = "\<lparr> type = JFun 7, props = [], key = JNum (Finite 0), ref = JFun 8,
               onLayout = JFun 9 \<rparr>"
  have f1: "\<not> truthy (key ?c1)" by simp
  have f2: "\<not> truthy (key ?c2)" by simp
  note t1 = falsy_fields_not_forwarded
      [of ?c1 hostRN JUndefined JUndefined JUndefined JUndefined, THEN conjunct1, rule_format, OF f1]
  note t2 = falsy_fields_not_forwarded
      [of ?c2 hostRN JUndefined JUndefined JUndefined JUndefined, THEN conjunct1, rule_format, OF f2]
  have a: "''key'' \<notin> fst ` set (config (createAnimatedWrapper hostRN ?c1
        JUndefined JUndefined JUndefined JUndefined))"
    using t1 by blast
  have b: "''key'' \<notin> fst ` set (config (createAnimatedWrapper hostRN ?c2
        JUndefined JUndefined JUndefined JUndefined))"
    using t2 by blast
  have c: "createAnimatedWrapper hostRN ?c1 JUndefined JUndefined JUndefined JUndefined
     = createAnimatedWrapper hostRN
        \<lparr> type = JFun 7, props = [], key = JUndefined, ref = JFun 8, onLayout = JFun 9 \<rparr>
        JUndefined JUndefined JUndefined JUndefined"
    using t1 by simp
  have d: "\<not> truthy (JStr []) \<and> \<not> truthy (JNum (Finite 0))" by simp
  from a b c d show ?thesis by blast
qed

end
